theory Spec2Isabelle
  imports Complex_Main
begin

unbundle bit_operations_syntax

section \<open>Common conventions\<close>

text \<open>
  The benchmarking harness is written in Python. Its floating-point quantities (clock
  readings of \<^verbatim>\<open>time.time()\<close>, durations, percentages) are modelled as exact
  rationals, its unbounded integers as \<open>int\<close> and its counters as \<open>nat\<close>. The clock is not
  read inside the model: every operation that calls \<^verbatim>\<open>time.time()\<close> takes the reading
  as its first argument. Exceptions are values of \<open>py_error\<close>; an operation that can raise
  returns \<open>py_error + 'a\<close>.
\<close>

datatype py_error = ZeroDivisionError | ValueError | IndexError | KeyError

text \<open>Python's true division \<^verbatim>\<open>a / b\<close> on floats raises on a zero divisor.\<close>

definition py_div :: "rat \<Rightarrow> rat \<Rightarrow> py_error + rat" where
  "py_div a b = (if b = 0 then Inl ZeroDivisionError else Inr (a / b))"

text \<open>\<^verbatim>\<open>min(xs)\<close> and \<^verbatim>\<open>max(xs)\<close> raise \<^verbatim>\<open>ValueError\<close> on an empty sequence.\<close>

definition py_min :: "rat list \<Rightarrow> py_error + rat" where
  "py_min xs = (case xs of [] \<Rightarrow> Inl ValueError | y # ys \<Rightarrow> Inr (fold min ys y))"

definition py_max :: "rat list \<Rightarrow> py_error + rat" where
  "py_max xs = (case xs of [] \<Rightarrow> Inl ValueError | y # ys \<Rightarrow> Inr (fold max ys y))"

section \<open>utils/fps.py: FPSCalculator\<close>

text \<open>
  \<^verbatim>\<open>collections.deque(maxlen=n).append(x)\<close>: the element is added on the right and, when the
  deque then holds more than \<open>n\<close> elements, the leftmost one is dropped.
\<close>

definition deque_append :: "nat \<Rightarrow> 'a list \<Rightarrow> 'a \<Rightarrow> 'a list" where
  "deque_append maxlen xs x = (let ys = xs @ [x] in if maxlen < length ys then tl ys else ys)"

record FPSCalculator =
  window_size :: nat
  frame_times :: "rat list"
  frame_count :: nat
  start_time :: "rat option"
  last_frame_time :: "rat option"

definition FPSCalculator_init :: "nat \<Rightarrow> FPSCalculator" where
  "FPSCalculator_init ws =
     \<lparr>window_size = ws, frame_times = [], frame_count = 0,
      start_time = None, last_frame_time = None\<rparr>"

definition start :: "rat \<Rightarrow> FPSCalculator \<Rightarrow> FPSCalculator" where
  "start now s =
     s\<lparr>start_time := Some now, last_frame_time := Some now,
       frame_count := 0, frame_times := []\<rparr>"

definition get_fps :: "FPSCalculator \<Rightarrow> py_error + rat" where
  "get_fps s =
     (if frame_times s = [] then Inr 0
      else case py_div (sum_list (frame_times s)) (of_nat (length (frame_times s))) of
             Inl e \<Rightarrow> Inl e
           | Inr avg_frame_time \<Rightarrow>
               if 0 < avg_frame_time then py_div 1 avg_frame_time else Inr 0)"

definition update :: "rat \<Rightarrow> FPSCalculator \<Rightarrow> (py_error + rat) \<times> FPSCalculator" where
  "update current_time s =
     (let s1 = (case last_frame_time s of
                  None \<Rightarrow> s
                | Some t \<Rightarrow>
                    s\<lparr>frame_times :=
                        deque_append (window_size s) (frame_times s) (current_time - t)\<rparr>);
          s2 = s1\<lparr>last_frame_time := Some current_time, frame_count := frame_count s1 + 1\<rparr>
      in (get_fps s2, s2))"

definition get_average_fps :: "rat \<Rightarrow> FPSCalculator \<Rightarrow> rat" where
  "get_average_fps now s =
     (case start_time s of
        None \<Rightarrow> 0
      | Some t \<Rightarrow>
          if frame_count s = 0 then 0
          else if 0 < now - t then of_nat (frame_count s) / (now - t) else 0)"

definition get_frame_count :: "FPSCalculator \<Rightarrow> nat" where
  "get_frame_count s = frame_count s"

definition reset :: "FPSCalculator \<Rightarrow> FPSCalculator" where
  "reset s = s\<lparr>frame_times := [], frame_count := 0, start_time := None, last_frame_time := None\<rparr>"

text \<open>A run of \<^verbatim>\<open>update()\<close> calls, one per clock reading, keeping the final state.\<close>

fun updates :: "rat list \<Rightarrow> FPSCalculator \<Rightarrow> FPSCalculator" where
  "updates [] s = s"
| "updates (t # ts) s = updates ts (snd (update t s))"

text \<open>
  The frame intervals of a run: the differences of consecutive clock readings, the first
  one taken against the baseline \<open>t0\<close>.
\<close>

fun intervals :: "rat \<Rightarrow> rat list \<Rightarrow> rat list" where
  "intervals t0 [] = []"
| "intervals t0 (t # ts) = (t - t0) # intervals t ts"

definition last_n :: "nat \<Rightarrow> 'a list \<Rightarrow> 'a list" where
  "last_n n xs = drop (length xs - n) xs"

section \<open>utils/fps.py: InferenceTimer\<close>

record InferenceTimer =
  timer_start_time :: "rat option"
  timer_times :: "rat list"

definition InferenceTimer_init :: InferenceTimer where
  "InferenceTimer_init = \<lparr>timer_start_time = None, timer_times = []\<rparr>"

definition timer_start :: "rat \<Rightarrow> InferenceTimer \<Rightarrow> InferenceTimer" where
  "timer_start now s = s\<lparr>timer_start_time := Some now\<rparr>"

definition stop :: "rat \<Rightarrow> InferenceTimer \<Rightarrow> rat \<times> InferenceTimer" where
  "stop now s =
     (case timer_start_time s of
        None \<Rightarrow> (0, s)
      | Some t \<Rightarrow> (now - t, s\<lparr>timer_times := timer_times s @ [now - t], timer_start_time := None\<rparr>))"

definition get_last_time :: "InferenceTimer \<Rightarrow> rat option" where
  "get_last_time s = (if timer_times s = [] then None else Some (last (timer_times s)))"

definition get_average :: "InferenceTimer \<Rightarrow> rat" where
  "get_average s =
     (if timer_times s = [] then 0 else sum_list (timer_times s) / of_nat (length (timer_times s)))"

definition get_min :: "InferenceTimer \<Rightarrow> rat option" where
  "get_min s = (case timer_times s of [] \<Rightarrow> None | y # ys \<Rightarrow> Some (fold min ys y))"

definition get_max :: "InferenceTimer \<Rightarrow> rat option" where
  "get_max s = (case timer_times s of [] \<Rightarrow> None | y # ys \<Rightarrow> Some (fold max ys y))"

definition get_count :: "InferenceTimer \<Rightarrow> nat" where
  "get_count s = length (timer_times s)"

definition timer_reset :: "InferenceTimer \<Rightarrow> InferenceTimer" where
  "timer_reset s = s\<lparr>timer_start_time := None, timer_times := []\<rparr>"

text \<open>The calls a driver can make on a timer, each with the clock reading it sees.\<close>

datatype timer_call = Start rat | Stop rat | Reset

fun timer_step :: "timer_call \<Rightarrow> InferenceTimer \<Rightarrow> InferenceTimer" where
  "timer_step (Start now) s = timer_start now s"
| "timer_step (Stop now) s = snd (stop now s)"
| "timer_step Reset s = timer_reset s"

fun timer_run :: "timer_call list \<Rightarrow> InferenceTimer \<Rightarrow> InferenceTimer" where
  "timer_run [] s = s"
| "timer_run (c # cs) s = timer_run cs (timer_step c s)"

fun is_start :: "timer_call \<Rightarrow> bool" where
  "is_start (Start now) = True"
| "is_start (Stop now) = False"
| "is_start Reset = False"

section \<open>utils/monitor.py: SystemMonitor.get_throttling_status\<close>

text \<open>
  The text handling of the method. The tool's output is a string of code points below
  256, one per character. \<^verbatim>\<open>str.strip()\<close> removes leading and trailing whitespace, which in
  that range is the characters 9 to 13, 28 to 32, 133 (next line) and 160 (no-break
  space); \<^verbatim>\<open>str.split('=')\<close> cuts at every separator and always returns at least one
  piece; indexing a list out of range raises \<^verbatim>\<open>IndexError\<close>.
\<close>

definition py_isspace :: "char \<Rightarrow> bool" where
  "py_isspace c =
     (c \<in> set [CHR '' '', CHR 0x09, CHR 0x0A, CHR 0x0B, CHR 0x0C, CHR 0x0D,
               CHR 0x1C, CHR 0x1D, CHR 0x1E, CHR 0x1F, CHR 0x85, CHR 0xA0])"

definition py_strip :: "string \<Rightarrow> string" where
  "py_strip s = rev (dropWhile py_isspace (rev (dropWhile py_isspace s)))"

fun py_split :: "char \<Rightarrow> string \<Rightarrow> string list" where
  "py_split sep [] = [[]]"
| "py_split sep (c # cs) =
     (if c = sep then [] # py_split sep cs
      else case py_split sep cs of
             [] \<Rightarrow> [[c]]
           | p # ps \<Rightarrow> (c # p) # ps)"

definition py_index :: "'a list \<Rightarrow> nat \<Rightarrow> py_error + 'a" where
  "py_index xs i = (if i < length xs then Inr (xs ! i) else Inl IndexError)"

text \<open>
  What \<^verbatim>\<open>subprocess.run(['vcgencmd', 'get_throttled'], capture_output=True, text=True,
  timeout=1)\<close> can do: raise \<^verbatim>\<open>FileNotFoundError\<close>, raise \<^verbatim>\<open>TimeoutExpired\<close>, or complete
  with a return code and the captured standard output.
\<close>

datatype run_outcome = FileNotFoundError | TimeoutExpired | Completed int string

record throttling_status =
  raw_value :: string
  under_voltage_now :: bool
  freq_capped_now :: bool
  throttled_now :: bool
  soft_temp_limit_now :: bool
  under_voltage_occurred :: bool
  freq_capped_occurred :: bool
  throttled_occurred :: bool
  soft_temp_limit_occurred :: bool

text \<open>
  The dictionary the method returns for the status word \<open>throttled_value\<close>;
  \<^verbatim>\<open>bool(n)\<close> of an integer is \<open>n \<noteq> 0\<close>.
\<close>

definition throttling_flags :: "string \<Rightarrow> int \<Rightarrow> throttling_status" where
  "throttling_flags throttled_hex throttled_value =
     \<lparr>raw_value = throttled_hex,
      under_voltage_now = (throttled_value AND 0x1 \<noteq> 0),
      freq_capped_now = (throttled_value AND 0x2 \<noteq> 0),
      throttled_now = (throttled_value AND 0x4 \<noteq> 0),
      soft_temp_limit_now = (throttled_value AND 0x8 \<noteq> 0),
      under_voltage_occurred = (throttled_value AND 0x10000 \<noteq> 0),
      freq_capped_occurred = (throttled_value AND 0x20000 \<noteq> 0),
      throttled_occurred = (throttled_value AND 0x40000 \<noteq> 0),
      soft_temp_limit_occurred = (throttled_value AND 0x80000 \<noteq> 0)\<rparr>"

text \<open>
  The method itself. Its surroundings are arguments: the platform probe's answer
  \<open>is_raspberry_pi\<close>, the outcome of running the tool, and Python's \<^verbatim>\<open>int(text, 16)\<close> as
  \<open>int16\<close>, which gives \<open>None\<close> where Python raises \<^verbatim>\<open>ValueError\<close>. The result \<open>None\<close> is
  Python's \<^verbatim>\<open>None\<close>: the caught exceptions, a non-zero return code and a platform other
  than a Raspberry Pi all end there.
\<close>

definition get_throttling_status ::
  "(string \<Rightarrow> int option) \<Rightarrow> bool \<Rightarrow> run_outcome \<Rightarrow> throttling_status option" where
  "get_throttling_status int16 is_raspberry_pi outcome =
     (if \<not> is_raspberry_pi then None
      else case outcome of
             FileNotFoundError \<Rightarrow> None
           | TimeoutExpired \<Rightarrow> None
           | Completed returncode stdout \<Rightarrow>
               if returncode = 0 then
                 (case py_index (py_split CHR ''='' (py_strip stdout)) 1 of
                    Inl e \<Rightarrow> None
                  | Inr throttled_hex \<Rightarrow>
                      (case int16 throttled_hex of
                         None \<Rightarrow> None
                       | Some throttled_value \<Rightarrow>
                           Some (throttling_flags throttled_hex throttled_value)))
               else None)"

section \<open>compare_results.py: BenchmarkComparator\<close>

text \<open>
  A Python dictionary whose iteration order matters is an association list in insertion
  order. \<^verbatim>\<open>d[k] = v\<close> replaces the value of a key already there, in place, and adds a new
  key at the end.
\<close>

fun dict_set :: "'k \<Rightarrow> 'v \<Rightarrow> ('k \<times> 'v) list \<Rightarrow> ('k \<times> 'v) list" where
  "dict_set k v [] = [(k, v)]"
| "dict_set k v ((k', v') # d) =
     (if k' = k then (k, v) # d else (k', v') # dict_set k v d)"

text \<open>
  \<^verbatim>\<open>max(d, key=d.get)\<close> and \<^verbatim>\<open>min(d, key=d.get)\<close>: the keys are visited in order and a later
  key replaces the best one so far only when its value is strictly better, so among equal
  values the first key wins. Both raise \<^verbatim>\<open>ValueError\<close> on an empty dictionary.
\<close>

fun max_key_from :: "'k \<times> ('v::linorder) \<Rightarrow> ('k \<times> 'v) list \<Rightarrow> 'k" where
  "max_key_from (bk, bv) [] = bk"
| "max_key_from (bk, bv) ((k, v) # d) =
     (if bv < v then max_key_from (k, v) d else max_key_from (bk, bv) d)"

fun min_key_from :: "'k \<times> ('v::linorder) \<Rightarrow> ('k \<times> 'v) list \<Rightarrow> 'k" where
  "min_key_from (bk, bv) [] = bk"
| "min_key_from (bk, bv) ((k, v) # d) =
     (if v < bv then min_key_from (k, v) d else min_key_from (bk, bv) d)"

definition py_max_key :: "('k \<times> ('v::linorder)) list \<Rightarrow> py_error + 'k" where
  "py_max_key d = (case d of [] \<Rightarrow> Inl ValueError | p # ps \<Rightarrow> Inr (max_key_from p ps))"

definition py_min_key :: "('k \<times> ('v::linorder)) list \<Rightarrow> py_error + 'k" where
  "py_min_key d = (case d of [] \<Rightarrow> Inl ValueError | p # ps \<Rightarrow> Inr (min_key_from p ps))"

text \<open>Sequencing of computations that can raise: the first exception ends the run.\<close>

definition bind_err :: "py_error + 'a \<Rightarrow> ('a \<Rightarrow> py_error + 'b) \<Rightarrow> py_error + 'b" where
  "bind_err r f = (case r of Inl e \<Rightarrow> Inl e | Inr x \<Rightarrow> f x)"

text \<open>
  The summary mapping of a persisted run, from field names to numbers. A loaded run is
  represented by \<^verbatim>\<open>data.get('summary', {})\<close>, the only part of it the comparison reads.
\<close>

type_synonym summary = "string \<rightharpoonup> rat"

definition summary_get :: "summary \<Rightarrow> string \<Rightarrow> rat \<Rightarrow> rat" where
  "summary_get s k dflt = (case s k of None \<Rightarrow> dflt | Some v \<Rightarrow> v)"

definition load_json_log ::
  "summary \<Rightarrow> string \<Rightarrow> (string \<times> summary) list \<Rightarrow> (string \<times> summary) list" where
  "load_json_log data model_name results = dict_set model_name data results"

record improvement =
  percentage :: rat
  better_model :: string
  direction :: string

definition calculate_improvement ::
  "(string \<times> rat) list \<Rightarrow> bool \<Rightarrow> py_error + improvement option" where
  "calculate_improvement data lower_is_better =
     (case data of
        [(m0, v0), (m1, v1)] \<Rightarrow>
          if lower_is_better then
            bind_err (py_div (v0 - v1) v0) (\<lambda>q.
              let improvement_pct = q * 100;
                  better = (if v1 < v0 then m1 else m0)
              in Inr (Some \<lparr>percentage = \<bar>improvement_pct\<bar>, better_model = better,
                    direction = (if 0 < improvement_pct then ''improvement''
                                 else ''regression'')\<rparr>))
          else
            bind_err (py_div (v1 - v0) v0) (\<lambda>q.
              let improvement_pct = q * 100;
                  better = (if v0 < v1 then m1 else m0)
              in Inr (Some \<lparr>percentage = \<bar>improvement_pct\<bar>, better_model = better,
                    direction = (if 0 < improvement_pct then ''improvement''
                                 else ''regression'')\<rparr>))
      | _ \<Rightarrow> Inr None)"

record comparison =
  models :: "string list"
  performance_fps :: "(string \<times> rat) list"
  performance_fps_improvement :: "improvement option"
  performance_inference_ms :: "(string \<times> rat) list"
  performance_inference_improvement :: "improvement option"
  system_cpu :: "(string \<times> rat) list"
  system_memory :: "(string \<times> rat) list"
  system_temperature :: "(string \<times> rat) list option"
  system_throttle_events :: "(string \<times> rat) list"
  winner :: "(string \<times> string) list"

text \<open>
  \<^verbatim>\<open>{name: summary.get(key, 0) for name, summary in summaries.items()}\<close>, and the
  temperature dictionary, which keeps the runs whose \<^verbatim>\<open>avg_temperature\<close> is truthy: present
  and not zero.
\<close>

definition collect_metric :: "string \<Rightarrow> (string \<times> summary) list \<Rightarrow> (string \<times> rat) list" where
  "collect_metric key results = map (\<lambda>(name, s). (name, summary_get s key 0)) results"

definition temp_data :: "(string \<times> summary) list \<Rightarrow> (string \<times> rat) list" where
  "temp_data results =
     List.map_filter
       (\<lambda>(name, s). case s ''avg_temperature'' of
                       None \<Rightarrow> None
                     | Some t \<Rightarrow> if t = 0 then None else Some (name, t))
       results"

text \<open>
  A summary reports temperature data, for the comparison, when its \<^verbatim>\<open>avg_temperature\<close> is
  truthy.
\<close>

definition reports_temperature :: "summary \<Rightarrow> bool" where
  "reports_temperature s =
     (case s ''avg_temperature'' of None \<Rightarrow> False | Some t \<Rightarrow> t \<noteq> 0)"

text \<open>
  \<^verbatim>\<open>compare()\<close>. The result \<open>Inr None\<close> is the empty dictionary returned for fewer than two
  loaded runs; \<open>system_temperature\<close> is \<open>None\<close> and \<open>winner\<close> has no \<open>temperature\<close> entry when
  the temperature comparison is left out.
\<close>

definition compare :: "(string \<times> summary) list \<Rightarrow> py_error + comparison option" where
  "compare results =
     (if length results < 2 then Inr None
      else
        let fps_data = collect_metric ''avg_fps'' results;
            inference_data = collect_metric ''avg_inference_ms'' results;
            cpu_data = collect_metric ''avg_cpu'' results;
            memory_data = collect_metric ''avg_memory'' results;
            throttle_data = collect_metric ''throttle_events'' results
        in
        bind_err (py_max_key fps_data) (\<lambda>w_fps.
        bind_err (calculate_improvement fps_data False) (\<lambda>fps_improvement.
        bind_err (py_min_key inference_data) (\<lambda>w_inference.
        bind_err (calculate_improvement inference_data True) (\<lambda>inference_improvement.
        bind_err (py_min_key cpu_data) (\<lambda>w_cpu.
        bind_err (py_min_key memory_data) (\<lambda>w_memory.
        bind_err (if temp_data results = [] then Inr []
                  else bind_err (py_min_key (temp_data results))
                         (\<lambda>w. Inr [(''temperature'', w)])) (\<lambda>w_temperature.
        Inr (Some
          \<lparr>models = map fst results,
           performance_fps = fps_data,
           performance_fps_improvement = fps_improvement,
           performance_inference_ms = inference_data,
           performance_inference_improvement = inference_improvement,
           system_cpu = cpu_data,
           system_memory = memory_data,
           system_temperature =
             (if temp_data results = [] then None else Some (temp_data results)),
           system_throttle_events = throttle_data,
           winner =
             [(''fps'', w_fps), (''inference'', w_inference), (''cpu'', w_cpu),
              (''memory'', w_memory)] @ w_temperature\<rparr>)))))))))"

text \<open>\<^verbatim>\<open>d[k]\<close> raises \<^verbatim>\<open>KeyError\<close> on a key the dictionary does not have.\<close>

definition py_getitem :: "('k \<times> 'v) list \<Rightarrow> 'k \<Rightarrow> py_error + 'v" where
  "py_getitem d k = (case map_of d k of None \<Rightarrow> Inl KeyError | Some v \<Rightarrow> Inr v)"

text \<open>
  \<^verbatim>\<open>print_comparison()\<close>. What it prints is returned as a report: for every metric one row per
  model with the model's value and whether it carries the winner's mark, the two
  improvement lines, the win counter of every model as printed under "Category Wins", and
  the one name printed as "Overall Winner". The rows are produced by the method's loops
  over \<open>models\<close>, with their dictionary lookups in the order of the source; the temperature
  rows use the guarded lookups of the source and cannot raise.
\<close>

fun metric_rows ::
  "(string \<times> rat) list \<Rightarrow> (string \<times> string) list \<Rightarrow> string \<Rightarrow> string list \<Rightarrow>
   py_error + (string \<times> rat \<times> bool) list" where
  "metric_rows d win category [] = Inr []"
| "metric_rows d win category (model # rest) =
     bind_err (py_getitem d model) (\<lambda>v.
     bind_err (py_getitem win category) (\<lambda>w.
     bind_err (metric_rows d win category rest) (\<lambda>rows.
     Inr ((model, v, w = model) # rows))))"

definition temperature_rows ::
  "(string \<times> rat) list \<Rightarrow> (string \<times> string) list \<Rightarrow> string list \<Rightarrow>
   (string \<times> rat \<times> bool) list" where
  "temperature_rows d win ms =
     List.map_filter
       (\<lambda>model. case map_of d model of
                   None \<Rightarrow> None
                 | Some temp \<Rightarrow> Some (model, temp, map_of win ''temperature'' = Some model))
       ms"

fun throttle_rows ::
  "(string \<times> rat) list \<Rightarrow> string list \<Rightarrow> py_error + (string \<times> rat \<times> bool) list" where
  "throttle_rows d [] = Inr []"
| "throttle_rows d (model # rest) =
     bind_err (py_getitem d model) (\<lambda>throttle.
     bind_err (throttle_rows d rest) (\<lambda>rows.
     Inr ((model, throttle, throttle = 0) # rows)))"

definition count_wins :: "comparison \<Rightarrow> (string \<times> nat) list" where
  "count_wins c =
     fold (\<lambda>(category, w) wins.
             case map_of wins w of
               None \<Rightarrow> wins
             | Some n \<Rightarrow> dict_set w (n + 1) wins)
          (winner c)
          (fold (\<lambda>model wins. dict_set model 0 wins) (models c) [])"

record report =
  comparing :: "string list"
  fps_rows :: "(string \<times> rat \<times> bool) list"
  fps_line :: "improvement option"
  inference_rows :: "(string \<times> rat \<times> bool) list"
  inference_line :: "improvement option"
  cpu_rows :: "(string \<times> rat \<times> bool) list"
  memory_rows :: "(string \<times> rat \<times> bool) list"
  temperature_section :: "(string \<times> rat \<times> bool) list option"
  throttling_rows :: "(string \<times> rat \<times> bool) list"
  category_wins :: "(string \<times> nat) list"
  overall_winner :: string

definition print_comparison :: "comparison \<Rightarrow> py_error + report" where
  "print_comparison c =
     bind_err (metric_rows (performance_fps c) (winner c) ''fps'' (models c)) (\<lambda>fps.
     bind_err (metric_rows (performance_inference_ms c) (winner c) ''inference'' (models c))
       (\<lambda>inference.
     bind_err (metric_rows (system_cpu c) (winner c) ''cpu'' (models c)) (\<lambda>cpu.
     bind_err (metric_rows (system_memory c) (winner c) ''memory'' (models c)) (\<lambda>memory.
     bind_err (throttle_rows (system_throttle_events c) (models c)) (\<lambda>throttling.
     bind_err (py_max_key (count_wins c)) (\<lambda>overall.
     Inr \<lparr>comparing = models c,
          fps_rows = fps,
          fps_line = performance_fps_improvement c,
          inference_rows = inference,
          inference_line = performance_inference_improvement c,
          cpu_rows = cpu,
          memory_rows = memory,
          temperature_section =
            (case system_temperature c of
               None \<Rightarrow> None
             | Some d \<Rightarrow> Some (temperature_rows d (winner c) (models c))),
          throttling_rows = throttling,
          category_wins = count_wins c,
          overall_winner = overall\<rparr>))))))"

text \<open>
  The end of \<^verbatim>\<open>main()\<close>: the comparison is computed and, when it is not the empty
  dictionary, the report is printed.
\<close>

definition compare_and_print :: "(string \<times> summary) list \<Rightarrow> py_error + report option" where
  "compare_and_print results =
     bind_err (compare results) (\<lambda>comparison.
       case comparison of
         None \<Rightarrow> Inr None
       | Some c \<Rightarrow> bind_err (print_comparison c) (\<lambda>out. Inr (Some out)))"

section \<open>utils/logger.py: BenchmarkLogger\<close>

text \<open>
  A metric record is a dictionary in which every field is optional: \<open>None\<close> is an absent
  key. The \<open>temperature\<close> key can be present with the value \<^verbatim>\<open>None\<close>, which is what
  \<^verbatim>\<open>log_system_snapshot()\<close> stores when the monitor has no reading: \<open>Some None\<close>.
\<close>

record MetricRecord =
  timestamp :: "rat option"
  frame :: "int option"
  inference_time :: "rat option"
  fps :: "rat option"
  cpu_percent :: "rat option"
  memory_percent :: "rat option"
  temperature :: "rat option option"
  throttled :: "bool option"
  load_1min :: "rat option"

definition empty_record :: MetricRecord where
  "empty_record =
     \<lparr>timestamp = None, frame = None, inference_time = None, fps = None, cpu_percent = None,
      memory_percent = None, temperature = None, throttled = None, load_1min = None\<rparr>"

text \<open>
  \<^verbatim>\<open>datetime.now()\<close> is a naive local date and time;
  \<^verbatim>\<open>strftime('%Y-%m-%d_%H-%M-%S')\<close> prints its fields down to the second as decimal
  numbers of fixed width (four digits for a year from 1000 to 9999, two for the others).
\<close>

record datetime =
  year :: nat
  month :: nat
  day :: nat
  hour :: nat
  minute :: nat
  second :: nat
  microsecond :: nat

definition valid_datetime :: "datetime \<Rightarrow> bool" where
  "valid_datetime t =
     (1000 \<le> year t \<and> year t \<le> 9999 \<and> 1 \<le> month t \<and> month t \<le> 12 \<and>
      1 \<le> day t \<and> day t \<le> 31 \<and> hour t < 24 \<and> minute t < 60 \<and> second t < 60 \<and>
      microsecond t < 1000000)"

definition digit_char :: "nat \<Rightarrow> char" where
  "digit_char n = ''0123456789'' ! (n mod 10)"

definition pad2 :: "nat \<Rightarrow> string" where
  "pad2 n = [digit_char (n div 10), digit_char n]"

definition pad4 :: "nat \<Rightarrow> string" where
  "pad4 n = pad2 (n div 100) @ pad2 n"

definition strftime :: "datetime \<Rightarrow> string" where
  "strftime t =
     pad4 (year t) @ ''-'' @ pad2 (month t) @ ''-'' @ pad2 (day t) @ ''_'' @
     pad2 (hour t) @ ''-'' @ pad2 (minute t) @ ''-'' @ pad2 (second t)"

text \<open>Two clock readings that agree in every field down to the second.\<close>

definition same_second :: "datetime \<Rightarrow> datetime \<Rightarrow> bool" where
  "same_second t1 t2 =
     (year t1 = year t2 \<and> month t1 = month t2 \<and> day t1 = day t2 \<and>
      hour t1 = hour t2 \<and> minute t1 = minute t2 \<and> second t1 = second t2)"

text \<open>
  The logger. A path is the list of the parts joined by \<^verbatim>\<open>/\<close>; creating the directory and
  writing the log file are effects outside the model.
\<close>

record BenchmarkLogger =
  model_name :: string
  log_dir :: "string list"
  log_filename :: string
  log_path :: "string list"
  json_filename :: string
  json_path :: "string list"
  metrics_buffer :: "MetricRecord list"
  run_config :: "(string \<times> string) list option"
  logger_summary :: "summary option"

definition BenchmarkLogger_init :: "datetime \<Rightarrow> string \<Rightarrow> string \<Rightarrow> BenchmarkLogger" where
  "BenchmarkLogger_init now name dir =
     (let stamp = strftime now in
      \<lparr>model_name = name,
       log_dir = [dir, name],
       log_filename = name @ ''_'' @ stamp @ ''.log'',
       log_path = [dir, name, name @ ''_'' @ stamp @ ''.log''],
       json_filename = name @ ''_'' @ stamp @ ''.json'',
       json_path = [dir, name, name @ ''_'' @ stamp @ ''.json''],
       metrics_buffer = [],
       run_config = None,
       logger_summary = None\<rparr>)"

definition log_metric :: "MetricRecord \<Rightarrow> BenchmarkLogger \<Rightarrow> BenchmarkLogger" where
  "log_metric metric_data lg = lg\<lparr>metrics_buffer := metrics_buffer lg @ [metric_data]\<rparr>"

definition log_inference ::
  "rat \<Rightarrow> int \<Rightarrow> rat \<Rightarrow> rat \<Rightarrow> BenchmarkLogger \<Rightarrow> BenchmarkLogger" where
  "log_inference now frame_num inference fps_now lg =
     log_metric
       (empty_record\<lparr>timestamp := Some now, frame := Some frame_num,
          inference_time := Some inference, fps := Some fps_now\<rparr>)
       lg"

text \<open>The parts of a monitor snapshot that \<^verbatim>\<open>log_system_snapshot()\<close> reads.\<close>

record snapshot =
  snap_timestamp :: rat
  snap_cpu_overall :: rat
  snap_memory_percent :: rat
  snap_temperature :: "rat option"
  snap_load_1min :: rat
  snap_throttling :: "throttling_status option"

definition log_system_snapshot :: "snapshot \<Rightarrow> BenchmarkLogger \<Rightarrow> BenchmarkLogger" where
  "log_system_snapshot snap lg =
     (let metric_data =
            empty_record\<lparr>timestamp := Some (snap_timestamp snap),
              cpu_percent := Some (snap_cpu_overall snap),
              memory_percent := Some (snap_memory_percent snap),
              temperature := Some (snap_temperature snap),
              load_1min := Some (snap_load_1min snap)\<rparr>;
          metric_data' =
            (case snap_throttling snap of
               None \<Rightarrow> metric_data
             | Some throttle \<Rightarrow>
                 metric_data\<lparr>throttled :=
                   Some (throttled_now throttle \<or> under_voltage_now throttle)\<rparr>)
      in lg\<lparr>metrics_buffer := metrics_buffer lg @ [metric_data']\<rparr>)"

section \<open>run_yolov8.py: YOLOv8Benchmark._write_summary\<close>

text \<open>
  The value lists the method collects from the metrics buffer. A field contributes where
  its key is present; a temperature contributes where \<^verbatim>\<open>m.get('temperature')\<close> is not
  \<^verbatim>\<open>None\<close>; a record counts as a throttle event where \<^verbatim>\<open>m.get('throttled', False)\<close> is true.
\<close>

definition inference_times :: "MetricRecord list \<Rightarrow> rat list" where
  "inference_times ms = List.map_filter inference_time ms"

definition fps_values :: "MetricRecord list \<Rightarrow> rat list" where
  "fps_values ms = List.map_filter fps ms"

definition cpu_values :: "MetricRecord list \<Rightarrow> rat list" where
  "cpu_values ms = List.map_filter cpu_percent ms"

definition memory_values :: "MetricRecord list \<Rightarrow> rat list" where
  "memory_values ms = List.map_filter memory_percent ms"

definition temp_values :: "MetricRecord list \<Rightarrow> rat list" where
  "temp_values ms =
     List.map_filter (\<lambda>m. case temperature m of None \<Rightarrow> None | Some t \<Rightarrow> t) ms"

definition throttle_count :: "MetricRecord list \<Rightarrow> nat" where
  "throttle_count ms =
     length (filter (\<lambda>m. case throttled m of None \<Rightarrow> False | Some b \<Rightarrow> b) ms)"

text \<open>
  The summary dictionary the method computes and hands to the logger. The arguments are
  the clock reading that \<^verbatim>\<open>get_average_fps()\<close> takes, the benchmark's FPS calculator and the
  logger's metrics buffer. Every \<^verbatim>\<open>min\<close>, \<^verbatim>\<open>max\<close>, division and index of the source is the
  fallible operation here, behind the source's own emptiness test.
\<close>

definition write_summary ::
  "rat \<Rightarrow> FPSCalculator \<Rightarrow> MetricRecord list \<Rightarrow> py_error + summary" where
  "write_summary now fps_calc ms =
     (let its = inference_times ms; fvs = fps_values ms; cvs = cpu_values ms;
          mvs = memory_values ms; tvs = temp_values ms
      in
      bind_err (if fvs \<noteq> [] then py_min fvs else Inr 0) (\<lambda>min_fps.
      bind_err (if fvs \<noteq> [] then py_max fvs else Inr 0) (\<lambda>max_fps.
      bind_err (if its \<noteq> []
                then bind_err (py_div (sum_list its) (of_nat (length its)))
                       (\<lambda>q. Inr (q * 1000))
                else Inr 0) (\<lambda>avg_inference_ms.
      bind_err (if its \<noteq> [] then bind_err (py_min its) (\<lambda>v. Inr (v * 1000))
                else Inr 0) (\<lambda>min_inference_ms.
      bind_err (if its \<noteq> [] then bind_err (py_max its) (\<lambda>v. Inr (v * 1000))
                else Inr 0) (\<lambda>max_inference_ms.
      bind_err (if cvs \<noteq> [] then py_div (sum_list cvs) (of_nat (length cvs))
                else Inr 0) (\<lambda>avg_cpu.
      bind_err (if cvs \<noteq> [] then py_max cvs else Inr 0) (\<lambda>max_cpu.
      bind_err (if mvs \<noteq> [] then py_div (sum_list mvs) (of_nat (length mvs))
                else Inr 0) (\<lambda>avg_memory.
      bind_err (if mvs \<noteq> [] then py_max mvs else Inr 0) (\<lambda>max_memory.
      let s = Map.empty
                (''total_frames'' \<mapsto> of_nat (get_frame_count fps_calc),
                 ''avg_fps'' \<mapsto> get_average_fps now fps_calc,
                 ''min_fps'' \<mapsto> min_fps,
                 ''max_fps'' \<mapsto> max_fps,
                 ''avg_inference_ms'' \<mapsto> avg_inference_ms,
                 ''min_inference_ms'' \<mapsto> min_inference_ms,
                 ''max_inference_ms'' \<mapsto> max_inference_ms,
                 ''avg_cpu'' \<mapsto> avg_cpu,
                 ''max_cpu'' \<mapsto> max_cpu,
                 ''avg_memory'' \<mapsto> avg_memory,
                 ''max_memory'' \<mapsto> max_memory,
                 ''throttle_events'' \<mapsto> of_nat (throttle_count ms))
      in
      if tvs \<noteq> [] then
        bind_err (py_index tvs 0) (\<lambda>initial_temp.
        bind_err (py_div (sum_list tvs) (of_nat (length tvs))) (\<lambda>avg_temperature.
        bind_err (py_max tvs) (\<lambda>max_temperature.
        bind_err (py_max tvs) (\<lambda>max_temperature'.
        Inr (s(''avg_temperature'' \<mapsto> avg_temperature,
               ''max_temperature'' \<mapsto> max_temperature,
               ''temp_rise'' \<mapsto> max_temperature' - initial_temp))))))
      else Inr s))))))))))"

section \<open>Properties of FPSCalculator\<close>

subsection \<open>The rolling window\<close>

lemma last_n_append_last_n: "last_n n (last_n n xs @ ys) = last_n n (xs @ ys)"
proof (cases "n \<le> length xs")
  case True
  then have "length ys + (length xs - n) = length xs + length ys - n" by arith
  with True show ?thesis by (simp add: last_n_def)
next
  case False
  then show ?thesis by (simp add: last_n_def)
qed

lemma deque_append_last_n: "length xs \<le> n \<Longrightarrow> deque_append n xs x = last_n n (xs @ [x])"
proof (cases "length xs = n")
  case True
  then show ?thesis by (cases xs) (simp_all add: deque_append_def last_n_def Let_def)
next
  case False
  assume "length xs \<le> n"
  with False have "length xs < n" by arith
  then show ?thesis by (simp add: deque_append_def last_n_def Let_def)
qed

lemma length_last_n: "length (last_n n xs) = min n (length xs)"
  by (simp add: last_n_def)

lemma length_intervals: "length (intervals t0 ts) = length ts"
  by (induction ts arbitrary: t0) simp_all

text \<open>
  Once a baseline is set and the window respects its capacity, a run of updates leaves in
  the window the newest \<open>window_size\<close> entries of the old window followed by the new
  intervals.
\<close>

lemma frame_times_updates:
  "last_frame_time s = Some t0 \<Longrightarrow> length (frame_times s) \<le> window_size s \<Longrightarrow>
   frame_times (updates ts s) = last_n (window_size s) (frame_times s @ intervals t0 ts)
   \<and> window_size (updates ts s) = window_size s"
proof (induction ts arbitrary: s t0)
  case Nil
  then show ?case by (simp add: last_n_def)
next
  case (Cons t ts)
  let ?s' = "snd (update t s)"
  have ft: "frame_times ?s' = last_n (window_size s) (frame_times s @ [t - t0])"
    using Cons.prems by (simp add: update_def Let_def deque_append_last_n)
  have ws: "window_size ?s' = window_size s"
    using Cons.prems by (simp add: update_def Let_def)
  have lt: "last_frame_time ?s' = Some t"
    by (simp add: update_def Let_def)
  have len: "length (frame_times ?s') \<le> window_size ?s'"
    by (simp add: ft ws length_last_n)
  from Cons.IH [OF lt len]
  show ?case by (simp add: ft ws last_n_append_last_n)
qed

lemma get_fps_total: "\<exists>v. get_fps s = Inr v"
  by (auto simp: get_fps_def py_div_def)

lemma get_fps_pos:
  "frame_times s \<noteq> [] \<Longrightarrow> 0 < sum_list (frame_times s) \<Longrightarrow>
   get_fps s = Inr (of_nat (length (frame_times s)) / sum_list (frame_times s))"
  by (auto simp: get_fps_def py_div_def zero_less_divide_iff)

lemma get_fps_nonpos: "sum_list (frame_times s) \<le> 0 \<Longrightarrow> get_fps s = Inr 0"
  by (auto simp: get_fps_def py_div_def zero_less_divide_iff)

text \<open>
  Claim C1, as the code has it. \<^verbatim>\<open>get_fps()\<close> never raises. On an empty window it returns
  0.0. On a non-empty window whose intervals sum to a positive value it returns the number
  of intervals in the window divided by their sum, which is 1 over their mean. On a window
  whose intervals sum to zero or less (equal or decreasing clock readings) the guard
  \<^verbatim>\<open>avg_frame_time > 0\<close> makes it return 0.0. \<^verbatim>\<open>update()\<close> returns the value of \<^verbatim>\<open>get_fps()\<close>
  in the state it leaves, and after \<^verbatim>\<open>start()\<close> and \<open>N\<close> updates the window holds the last
  \<open>min(window_size, N)\<close> frame intervals: the oldest ones have been evicted.
\<close>

theorem C1_rolling_fps:
  "(frame_times s = [] \<longrightarrow> get_fps s = Inr 0) \<and>
   (frame_times s \<noteq> [] \<and> 0 < sum_list (frame_times s) \<longrightarrow>
      get_fps s = Inr (of_nat (length (frame_times s)) / sum_list (frame_times s)) \<and>
      get_fps s = Inr (1 / (sum_list (frame_times s) / of_nat (length (frame_times s))))) \<and>
   (sum_list (frame_times s) \<le> 0 \<longrightarrow> get_fps s = Inr 0) \<and>
   (\<exists>v. get_fps s = Inr v) \<and>
   fst (update t s) = get_fps (snd (update t s)) \<and>
   frame_times (updates ts (start t0 s)) =
     last_n (min (window_size s) (length ts)) (intervals t0 ts)"
proof -
  have a: "frame_times s = [] \<longrightarrow> get_fps s = Inr 0"
    by (simp add: get_fps_def)
  have b: "frame_times s \<noteq> [] \<and> 0 < sum_list (frame_times s) \<longrightarrow>
      get_fps s = Inr (of_nat (length (frame_times s)) / sum_list (frame_times s)) \<and>
      get_fps s = Inr (1 / (sum_list (frame_times s) / of_nat (length (frame_times s))))"
    using get_fps_pos [of s] by simp
  have c: "sum_list (frame_times s) \<le> 0 \<longrightarrow> get_fps s = Inr 0"
    using get_fps_nonpos [of s] by simp
  have d: "fst (update t s) = get_fps (snd (update t s))"
    by (simp add: update_def Let_def)
  have w: "frame_times (updates ts (start t0 s)) =
          last_n (window_size (start t0 s)) (frame_times (start t0 s) @ intervals t0 ts)"
    using frame_times_updates [of "start t0 s" t0 ts] by (simp add: start_def)
  have m: "length ts - min (window_size s) (length ts) = length ts - window_size s"
    by arith
  have e: "frame_times (updates ts (start t0 s)) =
     last_n (min (window_size s) (length ts)) (intervals t0 ts)"
    using w m by (simp add: start_def last_n_def length_intervals)
  from a b c d e get_fps_total [of s] show ?thesis by blast
qed

text \<open>
  A window of capacity 2 after clock readings 1, 2 and 4 from a start at 0: the intervals
  are 1, 1 and 2, the window keeps the last two of them, and the rolling rate is 2/3.
\<close>

theorem C1_rolling_fps_witness:
  "get_fps (updates [1, 2, 4] (start 0 (FPSCalculator_init 2))) = Inr (2 / 3) \<and>
   frame_times (updates [1, 2, 4] (start 0 (FPSCalculator_init 2))) = [1, 2]"
proof -
  have w: "frame_times (updates [1, 2, 4] (start 0 (FPSCalculator_init 2))) = [1, 2]"
    using C1_rolling_fps [of "FPSCalculator_init 2" 0 "[1, 2, 4]" 0]
    by (simp add: last_n_def FPSCalculator_init_def)
  show ?thesis
    using C1_rolling_fps [of "updates [1, 2, 4] (start 0 (FPSCalculator_init 2))" 0 "[]" 0] w
    by simp
qed

text \<open>
  The formula does not hold on every non-empty window. When the wall clock is set back by
  one second between \<^verbatim>\<open>start()\<close> and the first \<^verbatim>\<open>update()\<close>, the window is the single
  interval -1: the code returns 0.0, where the window's length over its sum is -1. When
  the clock gives the same reading to \<^verbatim>\<open>start()\<close> and to the first \<^verbatim>\<open>update()\<close>, the window is
  the single interval 0: the code returns 0.0, and the quotient of the window's length by
  its sum does not exist.
\<close>

theorem C1_counterexample:
  "frame_times (updates [9] (start 10 (FPSCalculator_init 30))) = [- 1] \<and>
   get_fps (updates [9] (start 10 (FPSCalculator_init 30))) = Inr 0 \<and>
   of_nat (length (frame_times (updates [9] (start 10 (FPSCalculator_init 30))))) /
     sum_list (frame_times (updates [9] (start 10 (FPSCalculator_init 30)))) = (- 1 :: rat) \<and>
   frame_times (updates [10] (start 10 (FPSCalculator_init 30))) = [0] \<and>
   get_fps (updates [10] (start 10 (FPSCalculator_init 30))) = Inr 0 \<and>
   py_div (of_nat (length (frame_times (updates [10] (start 10 (FPSCalculator_init 30))))))
     (sum_list (frame_times (updates [10] (start 10 (FPSCalculator_init 30))))) =
     Inl ZeroDivisionError"
  by (simp add: update_def start_def FPSCalculator_init_def deque_append_def get_fps_def
      py_div_def Let_def)

subsection \<open>The first update\<close>

text \<open>
  Claim C6, as the code has it. On a calculator with no timestamp baseline (freshly
  constructed, or reset) the first \<^verbatim>\<open>update()\<close> records no interval: it sets the baseline
  and counts the frame. \<^verbatim>\<open>start()\<close> sets the baseline itself, so the first \<^verbatim>\<open>update()\<close>
  after \<^verbatim>\<open>start()\<close> records the time elapsed since \<^verbatim>\<open>start()\<close> and the window then holds
  that one interval (no interval only when the window's capacity is 0).
\<close>

theorem C6_first_update:
  "(last_frame_time s = None \<longrightarrow>
      frame_times (snd (update t s)) = frame_times s \<and>
      last_frame_time (snd (update t s)) = Some t \<and>
      frame_count (snd (update t s)) = frame_count s + 1) \<and>
   frame_times (snd (update t (FPSCalculator_init ws))) = [] \<and>
   frame_times (snd (update t (reset s))) = [] \<and>
   frame_times (snd (update t (start t0 s))) = (if window_size s = 0 then [] else [t - t0])"
  by (simp add: update_def start_def reset_def FPSCalculator_init_def deque_append_def Let_def)

theorem C6_first_update_witness:
  "frame_times (snd (update 5 (FPSCalculator_init 30))) = [] \<and>
   last_frame_time (snd (update 5 (FPSCalculator_init 30))) = Some 5 \<and>
   frame_count (snd (update 5 (FPSCalculator_init 30))) = 1"
  using C6_first_update [of "FPSCalculator_init 30" 5 30 0]
  by (simp add: FPSCalculator_init_def)

text \<open>
  After \<^verbatim>\<open>start()\<close> at time 0 and exactly one \<^verbatim>\<open>update()\<close> at time 1 the window is not
  empty: it holds the interval 1.
\<close>

theorem C6_counterexample:
  "frame_times (snd (update 1 (start 0 (FPSCalculator_init 30)))) = [1]"
  by (simp add: update_def start_def FPSCalculator_init_def deque_append_def Let_def)

section \<open>Properties of InferenceTimer\<close>

text \<open>
  The recorded intervals, plus one for a pending start, never outnumber what the timer
  held before plus the \<^verbatim>\<open>start()\<close> calls made since.
\<close>

lemma timer_run_pending:
  "length (timer_times (timer_run cs s)) +
     (if timer_start_time (timer_run cs s) = None then 0 else 1)
   \<le> length (timer_times s) + (if timer_start_time s = None then 0 else 1) +
       length (filter is_start cs)"
proof (induction cs arbitrary: s)
  case Nil
  show ?case by simp
next
  case (Cons c cs)
  have step: "length (timer_times (timer_step c s)) +
       (if timer_start_time (timer_step c s) = None then 0 else 1)
     \<le> length (timer_times s) + (if timer_start_time s = None then 0 else 1) +
         (if is_start c then 1 else 0)"
    by (cases c) (simp_all add: timer_start_def stop_def timer_reset_def split: option.splits)
  have fl: "length (filter is_start (c # cs)) =
      (if is_start c then 1 else 0) + length (filter is_start cs)"
    by simp
  from Cons.IH [of "timer_step c s"] step fl show ?case
    unfolding timer_run.simps by linarith
qed

text \<open>
  Claim C5, as the code has it. On every timer with no recorded interval, with or without
  a pending start, \<^verbatim>\<open>get_min()\<close> and \<^verbatim>\<open>get_max()\<close> return \<^verbatim>\<open>None\<close>, and they return \<^verbatim>\<open>None\<close> in
  no other state; \<^verbatim>\<open>get_average()\<close>, declared to return a float, returns the number 0.0
  there.
\<close>

theorem C5_no_data:
  "(timer_times s = [] \<longrightarrow> get_min s = None \<and> get_max s = None \<and> get_average s = 0) \<and>
   (get_min s = None) = (timer_times s = []) \<and>
   (get_max s = None) = (timer_times s = []) \<and>
   get_min InferenceTimer_init = None \<and>
   get_max InferenceTimer_init = None \<and>
   get_average InferenceTimer_init = 0 \<and>
   get_average (timer_reset s) = 0"
  by (simp add: get_min_def get_max_def get_average_def InferenceTimer_init_def timer_reset_def
      split: list.splits)

text \<open>A timer that has been started and has not recorded an interval yet.\<close>

theorem C5_no_data_witness:
  "timer_times (timer_start 3 InferenceTimer_init) = [] \<and>
   get_min (timer_start 3 InferenceTimer_init) = None \<and>
   get_max (timer_start 3 InferenceTimer_init) = None \<and>
   get_average (timer_start 3 InferenceTimer_init) = 0"
proof -
  have e: "timer_times (timer_start 3 InferenceTimer_init) = []"
    by (simp add: timer_start_def InferenceTimer_init_def)
  show ?thesis
    using e C5_no_data [of "timer_start 3 InferenceTimer_init"] by simp
qed

text \<open>
  \<^verbatim>\<open>get_average()\<close> gives the same number on a timer with no data and on a timer that has
  recorded one interval of zero duration; only \<^verbatim>\<open>get_count()\<close> tells them apart.
\<close>

theorem C5_counterexample:
  "get_average InferenceTimer_init = 0 \<and>
   get_average (snd (stop 5 (timer_start 5 InferenceTimer_init))) = 0 \<and>
   get_count InferenceTimer_init = 0 \<and>
   get_count (snd (stop 5 (timer_start 5 InferenceTimer_init))) = 1"
  by (simp add: get_average_def get_count_def stop_def timer_start_def InferenceTimer_init_def)

text \<open>
  Claim C10. Every \<^verbatim>\<open>stop()\<close> leaves no pending start timestamp, so a second \<^verbatim>\<open>stop()\<close>
  right after it returns 0.0 and changes nothing; one \<^verbatim>\<open>stop()\<close> records at most one
  interval; and over any sequence of \<^verbatim>\<open>start()\<close>, \<^verbatim>\<open>stop()\<close> and \<^verbatim>\<open>reset()\<close> calls on a new
  timer, the number of recorded intervals never exceeds the number of \<^verbatim>\<open>start()\<close> calls.
\<close>

theorem C10_stop_clears_start:
  "timer_start_time (snd (stop now s)) = None \<and>
   stop now' (snd (stop now s)) = (0, snd (stop now s)) \<and>
   length (timer_times (snd (stop now s))) \<le> length (timer_times s) + 1 \<and>
   length (timer_times (timer_run cs InferenceTimer_init)) \<le> length (filter is_start cs)"
proof -
  have a: "timer_start_time (snd (stop now s)) = None"
    by (simp add: stop_def split: option.splits)
  then have b: "stop now' (snd (stop now s)) = (0, snd (stop now s))"
    by (simp add: stop_def [of now'])
  have c: "length (timer_times (snd (stop now s))) \<le> length (timer_times s) + 1"
    by (simp add: stop_def split: option.splits)
  have d: "length (timer_times (timer_run cs InferenceTimer_init)) \<le> length (filter is_start cs)"
    using timer_run_pending [of cs InferenceTimer_init] by (simp add: InferenceTimer_init_def)
  from a b c d show ?thesis by simp
qed

section \<open>Properties of SystemMonitor.get_throttling_status\<close>

lemma and_pow2_bit: "((v::int) AND 2 ^ n \<noteq> 0) = bit v n"
  by (simp add: and_exp_eq_0_iff_not_bit)

lemma throttling_flags_bits:
  "under_voltage_now (throttling_flags h v) = bit v 0 \<and>
   freq_capped_now (throttling_flags h v) = bit v 1 \<and>
   throttled_now (throttling_flags h v) = bit v 2 \<and>
   soft_temp_limit_now (throttling_flags h v) = bit v 3 \<and>
   under_voltage_occurred (throttling_flags h v) = bit v 16 \<and>
   freq_capped_occurred (throttling_flags h v) = bit v 17 \<and>
   throttled_occurred (throttling_flags h v) = bit v 18 \<and>
   soft_temp_limit_occurred (throttling_flags h v) = bit v 19"
  using and_pow2_bit [of v 0] and_pow2_bit [of v 1] and_pow2_bit [of v 2] and_pow2_bit [of v 3]
    and_pow2_bit [of v 16] and_pow2_bit [of v 17] and_pow2_bit [of v 18] and_pow2_bit [of v 19]
  by (simp add: throttling_flags_def)

lemma get_throttling_status_decodes:
  "py_index (py_split CHR ''='' (py_strip out)) 1 = Inr h \<Longrightarrow> int16 h = Some v \<Longrightarrow>
   get_throttling_status int16 True (Completed 0 out) = Some (throttling_flags h v)"
  by (simp add: get_throttling_status_def)

text \<open>
  Claim C2. For every status word \<open>v\<close> the eight flags of the returned dictionary are the
  bits 0, 1, 2, 3, 16, 17, 18 and 19 of \<open>v\<close>, in the order under-voltage, frequency-capped,
  throttled, soft temperature limit, first "now" and then "occurred"; whenever the tool's
  output parses to the status word \<open>v\<close>, \<^verbatim>\<open>get_throttling_status()\<close> returns that dictionary;
  and the word \<^verbatim>\<open>0x50005\<close> decodes to under-voltage-now, throttled-now,
  under-voltage-occurred and throttled-occurred true, every other flag false.
\<close>

theorem C2_throttling_bits:
  "under_voltage_now (throttling_flags h v) = bit v 0 \<and>
   freq_capped_now (throttling_flags h v) = bit v 1 \<and>
   throttled_now (throttling_flags h v) = bit v 2 \<and>
   soft_temp_limit_now (throttling_flags h v) = bit v 3 \<and>
   under_voltage_occurred (throttling_flags h v) = bit v 16 \<and>
   freq_capped_occurred (throttling_flags h v) = bit v 17 \<and>
   throttled_occurred (throttling_flags h v) = bit v 18 \<and>
   soft_temp_limit_occurred (throttling_flags h v) = bit v 19 \<and>
   (py_index (py_split CHR ''='' (py_strip out)) 1 = Inr h \<and> int16 h = Some v \<longrightarrow>
      get_throttling_status int16 True (Completed 0 out) = Some (throttling_flags h v)) \<and>
   throttling_flags ''0x50005'' 0x50005 =
     \<lparr>raw_value = ''0x50005'',
      under_voltage_now = True, freq_capped_now = False, throttled_now = True,
      soft_temp_limit_now = False, under_voltage_occurred = True,
      freq_capped_occurred = False, throttled_occurred = True,
      soft_temp_limit_occurred = False\<rparr>"
proof -
  have e: "throttling_flags ''0x50005'' 0x50005 =
     \<lparr>raw_value = ''0x50005'',
      under_voltage_now = True, freq_capped_now = False, throttled_now = True,
      soft_temp_limit_now = False, under_voltage_occurred = True,
      freq_capped_occurred = False, throttled_occurred = True,
      soft_temp_limit_occurred = False\<rparr>"
    by (simp add: throttling_flags_def)
  from throttling_flags_bits [of h v] get_throttling_status_decodes [of out h int16 v] e
  show ?thesis by blast
qed

text \<open>
  The tool prints \<^verbatim>\<open>throttled=0x50005\<close> and a newline, and \<^verbatim>\<open>int('0x50005', 16)\<close> is 327685.
\<close>

theorem C2_throttling_bits_witness:
  "get_throttling_status (\<lambda>s. if s = ''0x50005'' then Some 0x50005 else None) True
     (Completed 0 ''throttled=0x50005\<newline>'') =
   Some \<lparr>raw_value = ''0x50005'',
      under_voltage_now = True, freq_capped_now = False, throttled_now = True,
      soft_temp_limit_now = False, under_voltage_occurred = True,
      freq_capped_occurred = False, throttled_occurred = True,
      soft_temp_limit_occurred = False\<rparr>"
proof -
  have p: "py_index (py_split CHR ''='' (py_strip ''throttled=0x50005\<newline>'')) 1 = Inr ''0x50005''"
    by (simp add: py_strip_def py_isspace_def py_index_def)
  show ?thesis
    using C2_throttling_bits [of "''0x50005''" "0x50005" "''throttled=0x50005\<newline>''"
        "\<lambda>s. if s = ''0x50005'' then Some 0x50005 else None"] p
    by simp
qed

section \<open>Properties of BenchmarkComparator\<close>

subsection \<open>Percentage improvement\<close>

lemma calculate_improvement_higher:
  "v0 \<noteq> 0 \<Longrightarrow> calculate_improvement [(m0, v0), (m1, v1)] False =
     Inr (Some \<lparr>percentage = \<bar>(v1 - v0) / v0 * 100\<bar>,
                better_model = (if v0 < v1 then m1 else m0),
                direction = (if 0 < (v1 - v0) / v0 * 100 then ''improvement''
                             else ''regression'')\<rparr>)"
  by (simp only: calculate_improvement_def bind_err_def py_div_def Let_def list.case prod.case
      if_False if_True sum.case simp_thms)

lemma calculate_improvement_lower:
  "v0 \<noteq> 0 \<Longrightarrow> calculate_improvement [(m0, v0), (m1, v1)] True =
     Inr (Some \<lparr>percentage = \<bar>- ((v1 - v0) / v0 * 100)\<bar>,
                better_model = (if v1 < v0 then m1 else m0),
                direction = (if 0 < - ((v1 - v0) / v0 * 100) then ''improvement''
                             else ''regression'')\<rparr>)"
proof -
  assume nz: "v0 \<noteq> 0"
  have e: "(v0 - v1) / v0 * 100 = - ((v1 - v0) / v0 * 100)"
    by (metis minus_diff_eq minus_divide_left mult_minus_left)
  have "calculate_improvement [(m0, v0), (m1, v1)] True =
     Inr (Some \<lparr>percentage = \<bar>(v0 - v1) / v0 * 100\<bar>,
                better_model = (if v1 < v0 then m1 else m0),
                direction = (if 0 < (v0 - v1) / v0 * 100 then ''improvement''
                             else ''regression'')\<rparr>)"
    using nz
    by (simp only: calculate_improvement_def bind_err_def py_div_def Let_def list.case prod.case
        if_False if_True sum.case simp_thms)
  then show ?thesis unfolding e .
qed

lemma compare_example:
  assumes "a \<noteq> b"
    and "sa ''avg_fps'' = Some 20" and "sa ''avg_inference_ms'' = Some 50"
    and "sb ''avg_fps'' = Some 25" and "sb ''avg_inference_ms'' = Some 40"
  shows "\<exists>c. compare (load_json_log sb b (load_json_log sa a [])) = Inr (Some c) \<and>
     models c = [a, b] \<and>
     map_of (winner c) ''fps'' = Some b \<and>
     map_of (winner c) ''inference'' = Some b \<and>
     performance_fps_improvement c =
       Some \<lparr>percentage = 25, better_model = b, direction = ''improvement''\<rparr> \<and>
     performance_inference_improvement c =
       Some \<lparr>percentage = 20, better_model = b, direction = ''improvement''\<rparr>"
proof -
  have r: "load_json_log sb b (load_json_log sa a []) = [(a, sa), (b, sb)]"
    using assms(1) by (simp add: load_json_log_def)
  have f: "collect_metric ''avg_fps'' [(a, sa), (b, sb)] = [(a, 20), (b, 25)]"
    using assms by (simp add: collect_metric_def summary_get_def)
  have i: "collect_metric ''avg_inference_ms'' [(a, sa), (b, sb)] = [(a, 50), (b, 40)]"
    using assms by (simp add: collect_metric_def summary_get_def)
  have fi: "calculate_improvement [(a, 20), (b, 25)] False =
      Inr (Some \<lparr>percentage = 25, better_model = b, direction = ''improvement''\<rparr>)"
    by (simp add: calculate_improvement_def bind_err_def py_div_def Let_def)
  have ii: "calculate_improvement [(a, 50), (b, 40)] True =
      Inr (Some \<lparr>percentage = 20, better_model = b, direction = ''improvement''\<rparr>)"
    by (simp add: calculate_improvement_def bind_err_def py_div_def Let_def)
  have wf: "py_max_key [(a, 20::rat), (b, 25)] = Inr b"
    by (simp add: py_max_key_def)
  have wi: "py_min_key [(a, 50::rat), (b, 40)] = Inr b"
    by (simp add: py_min_key_def)
  have mk: "\<And>k. \<exists>w. py_min_key (collect_metric k [(a, sa), (b, sb)]) = Inr w"
    by (simp add: py_min_key_def collect_metric_def)
  obtain wc where wc: "py_min_key (collect_metric ''avg_cpu'' [(a, sa), (b, sb)]) = Inr wc"
    using mk by blast
  obtain wm where wm: "py_min_key (collect_metric ''avg_memory'' [(a, sa), (b, sb)]) = Inr wm"
    using mk by blast
  have "\<exists>wt. (if temp_data [(a, sa), (b, sb)] = [] then Inr []
               else bind_err (py_min_key (temp_data [(a, sa), (b, sb)]))
                      (\<lambda>w. Inr [(''temperature'', w)])) =
              (Inr wt :: py_error + (string \<times> string) list)"
    by (cases "temp_data [(a, sa), (b, sb)]") (simp_all add: py_min_key_def bind_err_def)
  then obtain wt where wt:
    "(if temp_data [(a, sa), (b, sb)] = [] then Inr []
      else bind_err (py_min_key (temp_data [(a, sa), (b, sb)]))
             (\<lambda>w. Inr [(''temperature'', w)])) =
     (Inr wt :: py_error + (string \<times> string) list)"
    by blast
  show ?thesis
    unfolding r compare_def Let_def f i fi ii wf wi wc wm wt
    by (simp add: bind_err_def)
qed

text \<open>
  Claim C3. With exactly two loaded runs, the first-loaded model \<open>a\<close> with
  \<^verbatim>\<open>avg_fps\<close> 20 and \<^verbatim>\<open>avg_inference_ms\<close> 50 and the second-loaded model \<open>b\<close> with 25 and 40,
  \<^verbatim>\<open>compare()\<close> returns a comparison that names \<open>b\<close> as the FPS winner and as the inference
  winner, reports an FPS improvement of 25 percent and an inference improvement of 20
  percent, and labels both "improvement". In general, for a non-zero baseline \<open>v0\<close> (the
  first-loaded model's value) the signed percentage is \<open>(v1 - v0) / v0 * 100\<close>, negated for a
  lower-is-better metric; the reported percentage is its magnitude and the direction is
  "improvement" exactly when it is positive.
\<close>

theorem C3_compare_example:
  assumes "a \<noteq> b"
    and "sa ''avg_fps'' = Some 20" and "sa ''avg_inference_ms'' = Some 50"
    and "sb ''avg_fps'' = Some 25" and "sb ''avg_inference_ms'' = Some 40"
    and "v0 \<noteq> 0"
  shows "(\<exists>c. compare (load_json_log sb b (load_json_log sa a [])) = Inr (Some c) \<and>
     models c = [a, b] \<and>
     map_of (winner c) ''fps'' = Some b \<and>
     map_of (winner c) ''inference'' = Some b \<and>
     performance_fps_improvement c =
       Some \<lparr>percentage = 25, better_model = b, direction = ''improvement''\<rparr> \<and>
     performance_inference_improvement c =
       Some \<lparr>percentage = 20, better_model = b, direction = ''improvement''\<rparr>) \<and>
   calculate_improvement [(m0, v0), (m1, v1)] False =
     Inr (Some \<lparr>percentage = \<bar>(v1 - v0) / v0 * 100\<bar>,
                better_model = (if v0 < v1 then m1 else m0),
                direction = (if 0 < (v1 - v0) / v0 * 100 then ''improvement''
                             else ''regression'')\<rparr>) \<and>
   calculate_improvement [(m0, v0), (m1, v1)] True =
     Inr (Some \<lparr>percentage = \<bar>- ((v1 - v0) / v0 * 100)\<bar>,
                better_model = (if v1 < v0 then m1 else m0),
                direction = (if 0 < - ((v1 - v0) / v0 * 100) then ''improvement''
                             else ''regression'')\<rparr>)"
  using compare_example [OF assms(1-5)] calculate_improvement_higher [OF assms(6)]
    calculate_improvement_lower [OF assms(6)]
  by blast

theorem C3_compare_example_witness:
  "(\<exists>c. compare
          (load_json_log (Map.empty(''avg_fps'' \<mapsto> 25, ''avg_inference_ms'' \<mapsto> 40)) ''B''
            (load_json_log (Map.empty(''avg_fps'' \<mapsto> 20, ''avg_inference_ms'' \<mapsto> 50)) ''A'' []))
        = Inr (Some c) \<and>
     models c = [''A'', ''B''] \<and>
     map_of (winner c) ''fps'' = Some ''B'' \<and>
     map_of (winner c) ''inference'' = Some ''B'' \<and>
     performance_fps_improvement c =
       Some \<lparr>percentage = 25, better_model = ''B'', direction = ''improvement''\<rparr> \<and>
     performance_inference_improvement c =
       Some \<lparr>percentage = 20, better_model = ''B'', direction = ''improvement''\<rparr>) \<and>
   calculate_improvement [(''A'', 50), (''B'', 40)] True =
     Inr (Some \<lparr>percentage = 20, better_model = ''B'', direction = ''improvement''\<rparr>)"
  using C3_compare_example [of "''A''" "''B''" "Map.empty(''avg_fps'' \<mapsto> 20, ''avg_inference_ms'' \<mapsto> 50)"
      "Map.empty(''avg_fps'' \<mapsto> 25, ''avg_inference_ms'' \<mapsto> 40)" 50 "''A''" "''B''" 40]
  by simp

subsection \<open>The temperature comparison\<close>

lemma compare_temperature:
  "compare results = Inr (Some c) \<Longrightarrow>
     system_temperature c =
       (if temp_data results = [] then None else Some (temp_data results)) \<and>
     map_of (winner c) ''temperature'' =
       (case py_min_key (temp_data results) of Inl e \<Rightarrow> None | Inr w \<Rightarrow> Some w)"
  by (auto simp: compare_def bind_err_def Let_def py_min_key_def
      split: if_splits sum.splits list.splits)

lemma temp_data_pair:
  "temp_data [(a, sa), (b, sb)] =
     (if reports_temperature sa then [(a, summary_get sa ''avg_temperature'' 0)] else []) @
     (if reports_temperature sb then [(b, summary_get sb ''avg_temperature'' 0)] else [])"
  by (simp add: temp_data_def reports_temperature_def summary_get_def split: option.splits)

lemma compare_one_sided:
  "compare [(''A'', Map.empty(''avg_fps'' \<mapsto> 20, ''avg_inference_ms'' \<mapsto> 50,
                              ''avg_temperature'' \<mapsto> 50)),
            (''B'', Map.empty(''avg_fps'' \<mapsto> 25, ''avg_inference_ms'' \<mapsto> 40))] =
   Inr (Some
     \<lparr>models = [''A'', ''B''],
      performance_fps = [(''A'', 20), (''B'', 25)],
      performance_fps_improvement =
        Some \<lparr>percentage = 25, better_model = ''B'', direction = ''improvement''\<rparr>,
      performance_inference_ms = [(''A'', 50), (''B'', 40)],
      performance_inference_improvement =
        Some \<lparr>percentage = 20, better_model = ''B'', direction = ''improvement''\<rparr>,
      system_cpu = [(''A'', 0), (''B'', 0)],
      system_memory = [(''A'', 0), (''B'', 0)],
      system_temperature = Some [(''A'', 50)],
      system_throttle_events = [(''A'', 0), (''B'', 0)],
      winner =
        [(''fps'', ''B''), (''inference'', ''B''), (''cpu'', ''A''), (''memory'', ''A''),
         (''temperature'', ''A'')]\<rparr>)"
  by (simp add: compare_def collect_metric_def summary_get_def temp_data_def
      calculate_improvement_def py_div_def py_max_key_def py_min_key_def bind_err_def Let_def)

text \<open>
  Claim C7, as the code has it. For every pair of loaded runs on which \<^verbatim>\<open>compare()\<close>
  returns a comparison, the temperature comparison (the per-model values and the
  temperature winner) appears exactly when at least one of the two summaries has a
  non-zero \<^verbatim>\<open>avg_temperature\<close>. It lists the runs that have one: when only one run has
  it, that run alone is listed and is the temperature winner; when both have it, both are
  listed and the winner is the cooler one, the first-loaded on equal values. When neither
  has it, no temperature comparison is emitted.
\<close>

theorem C7_temperature_comparison:
  "compare [(a, sa), (b, sb)] = Inr (Some c) \<longrightarrow>
     (system_temperature c \<noteq> None) = (reports_temperature sa \<or> reports_temperature sb) \<and>
     (map_of (winner c) ''temperature'' \<noteq> None) =
        (reports_temperature sa \<or> reports_temperature sb) \<and>
     (reports_temperature sa \<and> \<not> reports_temperature sb \<longrightarrow>
        system_temperature c = Some [(a, summary_get sa ''avg_temperature'' 0)] \<and>
        map_of (winner c) ''temperature'' = Some a) \<and>
     (\<not> reports_temperature sa \<and> reports_temperature sb \<longrightarrow>
        system_temperature c = Some [(b, summary_get sb ''avg_temperature'' 0)] \<and>
        map_of (winner c) ''temperature'' = Some b) \<and>
     (reports_temperature sa \<and> reports_temperature sb \<longrightarrow>
        system_temperature c =
          Some [(a, summary_get sa ''avg_temperature'' 0),
                (b, summary_get sb ''avg_temperature'' 0)] \<and>
        map_of (winner c) ''temperature'' =
          Some (if summary_get sb ''avg_temperature'' 0 < summary_get sa ''avg_temperature'' 0
                then b else a))"
proof
  assume c: "compare [(a, sa), (b, sb)] = Inr (Some c)"
  note t = compare_temperature [OF c]
  show "(system_temperature c \<noteq> None) = (reports_temperature sa \<or> reports_temperature sb) \<and>
     (map_of (winner c) ''temperature'' \<noteq> None) =
        (reports_temperature sa \<or> reports_temperature sb) \<and>
     (reports_temperature sa \<and> \<not> reports_temperature sb \<longrightarrow>
        system_temperature c = Some [(a, summary_get sa ''avg_temperature'' 0)] \<and>
        map_of (winner c) ''temperature'' = Some a) \<and>
     (\<not> reports_temperature sa \<and> reports_temperature sb \<longrightarrow>
        system_temperature c = Some [(b, summary_get sb ''avg_temperature'' 0)] \<and>
        map_of (winner c) ''temperature'' = Some b) \<and>
     (reports_temperature sa \<and> reports_temperature sb \<longrightarrow>
        system_temperature c =
          Some [(a, summary_get sa ''avg_temperature'' 0),
                (b, summary_get sb ''avg_temperature'' 0)] \<and>
        map_of (winner c) ''temperature'' =
          Some (if summary_get sb ''avg_temperature'' 0 < summary_get sa ''avg_temperature'' 0
                then b else a))"
    using t by (simp add: temp_data_pair py_min_key_def)
qed

text \<open>
  Model A reports an average temperature of 50 and model B reports none: the code is on
  the branch where only the first run has temperature data.
\<close>

theorem C7_temperature_comparison_witness:
  "reports_temperature (Map.empty(''avg_fps'' \<mapsto> 20, ''avg_inference_ms'' \<mapsto> 50,
                                   ''avg_temperature'' \<mapsto> 50)) \<and>
   \<not> reports_temperature (Map.empty(''avg_fps'' \<mapsto> 25, ''avg_inference_ms'' \<mapsto> 40)) \<and>
   (\<exists>c. compare [(''A'', Map.empty(''avg_fps'' \<mapsto> 20, ''avg_inference_ms'' \<mapsto> 50,
                                   ''avg_temperature'' \<mapsto> 50)),
                 (''B'', Map.empty(''avg_fps'' \<mapsto> 25, ''avg_inference_ms'' \<mapsto> 40))] =
           Inr (Some c) \<and>
        system_temperature c = Some [(''A'', 50)] \<and>
        map_of (winner c) ''temperature'' = Some ''A'')"
proof -
  have r: "reports_temperature (Map.empty(''avg_fps'' \<mapsto> 20, ''avg_inference_ms'' \<mapsto> 50,
                                   ''avg_temperature'' \<mapsto> 50)) \<and>
   \<not> reports_temperature (Map.empty(''avg_fps'' \<mapsto> 25, ''avg_inference_ms'' \<mapsto> 40))"
    by (simp add: reports_temperature_def)
  show ?thesis
    using r compare_one_sided
      C7_temperature_comparison [of "''A''"
        "Map.empty(''avg_fps'' \<mapsto> 20, ''avg_inference_ms'' \<mapsto> 50, ''avg_temperature'' \<mapsto> 50)"
        "''B''" "Map.empty(''avg_fps'' \<mapsto> 25, ''avg_inference_ms'' \<mapsto> 40)"]
    by (simp add: summary_get_def)
qed

text \<open>
  Only model A reports temperature data, and a temperature comparison is emitted all the
  same: it lists A alone and names A the temperature winner.
\<close>

theorem C7_counterexample:
  "\<not> reports_temperature (Map.empty(''avg_fps'' \<mapsto> 25, ''avg_inference_ms'' \<mapsto> 40)) \<and>
   compare [(''A'', Map.empty(''avg_fps'' \<mapsto> 20, ''avg_inference_ms'' \<mapsto> 50,
                              ''avg_temperature'' \<mapsto> 50)),
            (''B'', Map.empty(''avg_fps'' \<mapsto> 25, ''avg_inference_ms'' \<mapsto> 40))] =
   Inr (Some
     \<lparr>models = [''A'', ''B''],
      performance_fps = [(''A'', 20), (''B'', 25)],
      performance_fps_improvement =
        Some \<lparr>percentage = 25, better_model = ''B'', direction = ''improvement''\<rparr>,
      performance_inference_ms = [(''A'', 50), (''B'', 40)],
      performance_inference_improvement =
        Some \<lparr>percentage = 20, better_model = ''B'', direction = ''improvement''\<rparr>,
      system_cpu = [(''A'', 0), (''B'', 0)],
      system_memory = [(''A'', 0), (''B'', 0)],
      system_temperature = Some [(''A'', 50)],
      system_throttle_events = [(''A'', 0), (''B'', 0)],
      winner =
        [(''fps'', ''B''), (''inference'', ''B''), (''cpu'', ''A''), (''memory'', ''A''),
         (''temperature'', ''A'')]\<rparr>)"
  using compare_one_sided by (simp add: reports_temperature_def)

subsection \<open>The overall winner\<close>

lemma count_wins_fold_pair:
  "a \<noteq> b \<Longrightarrow>
   fold (\<lambda>(category, w) wins.
             case map_of wins w of
               None \<Rightarrow> wins
             | Some n \<Rightarrow> dict_set w (n + 1) wins) ws [(a, i), (b, j)]
   = [(a, i + length (filter (\<lambda>(category, w). w = a) ws)),
      (b, j + length (filter (\<lambda>(category, w). w = b) ws))]"
proof (induction ws arbitrary: i j)
  case Nil
  show ?case by simp
next
  case (Cons p ws)
  obtain cat w where p: "p = (cat, w)" by (cases p)
  show ?case
    using Cons.prems Cons.IH [of "i + 1" j] Cons.IH [of i "j + 1"] Cons.IH [of i j]
    by (auto simp: p)
qed

lemma count_wins_pair:
  "a \<noteq> b \<Longrightarrow> models c = [a, b] \<Longrightarrow>
   count_wins c = [(a, length (filter (\<lambda>(category, w). w = a) (winner c))),
                   (b, length (filter (\<lambda>(category, w). w = b) (winner c)))]"
  using count_wins_fold_pair [of a b "winner c" 0 0] by (simp add: count_wins_def)

lemma compare_fields:
  "compare results = Inr (Some c) \<Longrightarrow>
     models c = map fst results \<and>
     performance_fps c = collect_metric ''avg_fps'' results \<and>
     performance_inference_ms c = collect_metric ''avg_inference_ms'' results \<and>
     system_cpu c = collect_metric ''avg_cpu'' results \<and>
     system_memory c = collect_metric ''avg_memory'' results \<and>
     system_throttle_events c = collect_metric ''throttle_events'' results \<and>
     (\<exists>w. py_getitem (winner c) ''fps'' = Inr w) \<and>
     (\<exists>w. py_getitem (winner c) ''inference'' = Inr w) \<and>
     (\<exists>w. py_getitem (winner c) ''cpu'' = Inr w) \<and>
     (\<exists>w. py_getitem (winner c) ''memory'' = Inr w)"
  by (auto simp: compare_def bind_err_def Let_def py_getitem_def split: if_splits sum.splits)

lemma metric_rows_pair:
  "a \<noteq> b \<Longrightarrow> py_getitem win category = Inr w \<Longrightarrow>
   \<exists>rows. metric_rows (collect_metric k [(a, sa), (b, sb)]) win category [a, b] = Inr rows"
  by (simp add: collect_metric_def py_getitem_def bind_err_def)

lemma throttle_rows_pair:
  "a \<noteq> b \<Longrightarrow>
   \<exists>rows. throttle_rows (collect_metric k [(a, sa), (b, sb)]) [a, b] = Inr rows"
  by (simp add: collect_metric_def py_getitem_def bind_err_def)


lemma compare_three_one:
  "compare [(''A'', Map.empty(''avg_fps'' \<mapsto> 20, ''avg_inference_ms'' \<mapsto> 50,
                              ''avg_cpu'' \<mapsto> 50, ''avg_memory'' \<mapsto> 50)),
            (''B'', Map.empty(''avg_fps'' \<mapsto> 25, ''avg_inference_ms'' \<mapsto> 40,
                              ''avg_cpu'' \<mapsto> 40, ''avg_memory'' \<mapsto> 60))] =
   Inr (Some
     \<lparr>models = [''A'', ''B''],
      performance_fps = [(''A'', 20), (''B'', 25)],
      performance_fps_improvement =
        Some \<lparr>percentage = 25, better_model = ''B'', direction = ''improvement''\<rparr>,
      performance_inference_ms = [(''A'', 50), (''B'', 40)],
      performance_inference_improvement =
        Some \<lparr>percentage = 20, better_model = ''B'', direction = ''improvement''\<rparr>,
      system_cpu = [(''A'', 50), (''B'', 40)],
      system_memory = [(''A'', 50), (''B'', 60)],
      system_temperature = None,
      system_throttle_events = [(''A'', 0), (''B'', 0)],
      winner =
        [(''fps'', ''B''), (''inference'', ''B''), (''cpu'', ''B''), (''memory'', ''A'')]\<rparr>)"
  by (simp add: compare_def collect_metric_def summary_get_def temp_data_def
      calculate_improvement_def py_div_def py_max_key_def py_min_key_def bind_err_def Let_def)

text \<open>
  Claim C8, as the code has it. For two loaded runs on which \<^verbatim>\<open>compare()\<close> returns a
  comparison, \<^verbatim>\<open>print_comparison()\<close> raises nothing, prints each model's number of category
  wins and prints one overall winner: the second-loaded model when it has strictly more
  category wins than the first-loaded one, and the first-loaded model otherwise. So the
  overall winner has the most category wins, and when both models have the same number of
  wins the first-loaded model is named overall winner; no tie is announced.
\<close>

theorem C8_overall_winner:
  "a \<noteq> b \<and> compare [(a, sa), (b, sb)] = Inr (Some c) \<longrightarrow>
     (\<exists>r. print_comparison c = Inr r \<and>
        category_wins r =
          [(a, length (filter (\<lambda>(category, w). w = a) (winner c))),
           (b, length (filter (\<lambda>(category, w). w = b) (winner c)))] \<and>
        overall_winner r =
          (if length (filter (\<lambda>(category, w). w = a) (winner c))
                < length (filter (\<lambda>(category, w). w = b) (winner c))
           then b else a))"
proof
  assume h: "a \<noteq> b \<and> compare [(a, sa), (b, sb)] = Inr (Some c)"
  then have ab: "a \<noteq> b" and cmp: "compare [(a, sa), (b, sb)] = Inr (Some c)"
    by simp_all
  note f = compare_fields [OF cmp]
  from f have m: "models c = [a, b]" by simp
  from f obtain w1 w2 w3 w4 where
    w: "py_getitem (winner c) ''fps'' = Inr w1" "py_getitem (winner c) ''inference'' = Inr w2"
       "py_getitem (winner c) ''cpu'' = Inr w3" "py_getitem (winner c) ''memory'' = Inr w4"
    by blast
  obtain r1 where r1: "metric_rows (performance_fps c) (winner c) ''fps'' (models c) = Inr r1"
    using metric_rows_pair [OF ab w(1), of "''avg_fps''" sa sb] f m by auto
  obtain r2 where r2:
    "metric_rows (performance_inference_ms c) (winner c) ''inference'' (models c) = Inr r2"
    using metric_rows_pair [OF ab w(2), of "''avg_inference_ms''" sa sb] f m by auto
  obtain r3 where r3: "metric_rows (system_cpu c) (winner c) ''cpu'' (models c) = Inr r3"
    using metric_rows_pair [OF ab w(3), of "''avg_cpu''" sa sb] f m by auto
  obtain r4 where r4: "metric_rows (system_memory c) (winner c) ''memory'' (models c) = Inr r4"
    using metric_rows_pair [OF ab w(4), of "''avg_memory''" sa sb] f m by auto
  obtain r5 where r5: "throttle_rows (system_throttle_events c) (models c) = Inr r5"
    using throttle_rows_pair [OF ab, of "''throttle_events''" sa sb] f m by auto
  note cw = count_wins_pair [OF ab m]
  show "\<exists>r. print_comparison c = Inr r \<and>
        category_wins r =
          [(a, length (filter (\<lambda>(category, w). w = a) (winner c))),
           (b, length (filter (\<lambda>(category, w). w = b) (winner c)))] \<and>
        overall_winner r =
          (if length (filter (\<lambda>(category, w). w = a) (winner c))
                < length (filter (\<lambda>(category, w). w = b) (winner c))
           then b else a)"
    by (simp add: print_comparison_def r1 r2 r3 r4 r5 cw py_max_key_def bind_err_def)
qed

text \<open>
  Model B wins FPS, inference time and CPU, model A wins memory: the second-loaded model
  has strictly more category wins and is the overall winner.
\<close>

theorem C8_overall_winner_witness:
  "\<exists>r. print_comparison
     \<lparr>models = [''A'', ''B''],
      performance_fps = [(''A'', 20), (''B'', 25)],
      performance_fps_improvement =
        Some \<lparr>percentage = 25, better_model = ''B'', direction = ''improvement''\<rparr>,
      performance_inference_ms = [(''A'', 50), (''B'', 40)],
      performance_inference_improvement =
        Some \<lparr>percentage = 20, better_model = ''B'', direction = ''improvement''\<rparr>,
      system_cpu = [(''A'', 50), (''B'', 40)],
      system_memory = [(''A'', 50), (''B'', 60)],
      system_temperature = None,
      system_throttle_events = [(''A'', 0), (''B'', 0)],
      winner =
        [(''fps'', ''B''), (''inference'', ''B''), (''cpu'', ''B''), (''memory'', ''A'')]\<rparr>
       = Inr r \<and>
     category_wins r = [(''A'', 1), (''B'', 3)] \<and> overall_winner r = ''B''"
  using compare_three_one
    C8_overall_winner [of "''A''" "''B''"
      "Map.empty(''avg_fps'' \<mapsto> 20, ''avg_inference_ms'' \<mapsto> 50, ''avg_cpu'' \<mapsto> 50,
                 ''avg_memory'' \<mapsto> 50)"
      "Map.empty(''avg_fps'' \<mapsto> 25, ''avg_inference_ms'' \<mapsto> 40, ''avg_cpu'' \<mapsto> 40,
                 ''avg_memory'' \<mapsto> 60)"
      "\<lparr>models = [''A'', ''B''],
      performance_fps = [(''A'', 20), (''B'', 25)],
      performance_fps_improvement =
        Some \<lparr>percentage = 25, better_model = ''B'', direction = ''improvement''\<rparr>,
      performance_inference_ms = [(''A'', 50), (''B'', 40)],
      performance_inference_improvement =
        Some \<lparr>percentage = 20, better_model = ''B'', direction = ''improvement''\<rparr>,
      system_cpu = [(''A'', 50), (''B'', 40)],
      system_memory = [(''A'', 50), (''B'', 60)],
      system_temperature = None,
      system_throttle_events = [(''A'', 0), (''B'', 0)],
      winner =
        [(''fps'', ''B''), (''inference'', ''B''), (''cpu'', ''B''), (''memory'', ''A'')]\<rparr>"]
  by (simp add: eval_nat_numeral)

text \<open>
  Model A wins FPS and inference time, model B wins CPU and memory: two category wins
  each. The report names the first-loaded model the overall winner, A when A was loaded
  first and B when B was loaded first.
\<close>

theorem C8_counterexample:
  "map_sum id (map_option (\<lambda>r. (category_wins r, overall_winner r)))
     (compare_and_print
       [(''A'', Map.empty(''avg_fps'' \<mapsto> 30, ''avg_inference_ms'' \<mapsto> 30, ''avg_cpu'' \<mapsto> 50,
                         ''avg_memory'' \<mapsto> 50)),
        (''B'', Map.empty(''avg_fps'' \<mapsto> 20, ''avg_inference_ms'' \<mapsto> 40, ''avg_cpu'' \<mapsto> 40,
                         ''avg_memory'' \<mapsto> 40))]) =
     Inr (Some ([(''A'', 2), (''B'', 2)], ''A'')) \<and>
   map_sum id (map_option (\<lambda>r. (category_wins r, overall_winner r)))
     (compare_and_print
       [(''B'', Map.empty(''avg_fps'' \<mapsto> 20, ''avg_inference_ms'' \<mapsto> 40, ''avg_cpu'' \<mapsto> 40,
                         ''avg_memory'' \<mapsto> 40)),
        (''A'', Map.empty(''avg_fps'' \<mapsto> 30, ''avg_inference_ms'' \<mapsto> 30, ''avg_cpu'' \<mapsto> 50,
                         ''avg_memory'' \<mapsto> 50))]) =
     Inr (Some ([(''B'', 2), (''A'', 2)], ''B''))"
  by (simp add: compare_and_print_def compare_def collect_metric_def summary_get_def temp_data_def
      calculate_improvement_def py_div_def py_max_key_def py_min_key_def py_getitem_def
      bind_err_def Let_def print_comparison_def count_wins_def)

section \<open>Properties of BenchmarkLogger\<close>

lemma digit_char_eq_iff: "(digit_char a = digit_char b) = (a mod 10 = b mod 10)"
proof -
  have d: "distinct ''0123456789''" by simp
  have "(''0123456789'' ! (a mod 10) = ''0123456789'' ! (b mod 10)) = (a mod 10 = b mod 10)"
    by (rule nth_eq_iff_index_eq [OF d]) simp_all
  then show ?thesis by (simp add: digit_char_def)
qed

lemma base_digits_unique:
  "k * xa + ya = k * xb + yb \<Longrightarrow> ya < k \<Longrightarrow> yb < k \<Longrightarrow> xa = xb \<and> ya = (yb::nat)"
proof -
  assume e: "k * xa + ya = k * xb + yb" and a: "ya < k" and b: "yb < k"
  have "(k * xa + ya) div k = xa" "(k * xb + yb) div k = xb"
    using a b by simp_all
  with e have x: "xa = xb" by simp
  with e show ?thesis by simp
qed

lemma split_mod:
  "0 < k \<Longrightarrow> (a mod (k * k) = b mod (k * k)) =
     (a div k mod k = b div k mod k \<and> a mod k = (b::nat) mod k)"
proof -
  assume k: "0 < k"
  have ea: "a mod (k * k) = k * (a div k mod k) + a mod k" by (rule mod_mult2_eq)
  have eb: "b mod (k * k) = k * (b div k mod k) + b mod k" by (rule mod_mult2_eq)
  show ?thesis
  proof
    assume "a mod (k * k) = b mod (k * k)"
    then have "k * (a div k mod k) + a mod k = k * (b div k mod k) + b mod k"
      unfolding ea eb .
    then show "a div k mod k = b div k mod k \<and> a mod k = b mod k"
      using k by (intro base_digits_unique [of k]) simp_all
  next
    assume "a div k mod k = b div k mod k \<and> a mod k = b mod k"
    then show "a mod (k * k) = b mod (k * k)" unfolding ea eb by simp
  qed
qed

lemma pad2_eq_iff: "(pad2 a = pad2 b) = (a mod 100 = b mod 100)"
  using split_mod [of 10 a b] by (simp add: pad2_def digit_char_eq_iff)

lemma length_pad2: "length (pad2 n) = 2"
  by (simp add: pad2_def)

lemma pad4_eq_iff: "(pad4 a = pad4 b) = (a mod 10000 = b mod 10000)"
  using split_mod [of 100 a b] by (simp add: pad4_def pad2_eq_iff length_pad2)

lemma length_pad4: "length (pad4 n) = 4"
  by (simp add: pad4_def pad2_def)

lemma strftime_eq_iff:
  "(strftime t1 = strftime t2) =
   (year t1 mod 10000 = year t2 mod 10000 \<and> month t1 mod 100 = month t2 mod 100 \<and>
    day t1 mod 100 = day t2 mod 100 \<and> hour t1 mod 100 = hour t2 mod 100 \<and>
    minute t1 mod 100 = minute t2 mod 100 \<and> second t1 mod 100 = second t2 mod 100)"
  by (simp add: strftime_def length_pad2 length_pad4 pad2_eq_iff pad4_eq_iff)

lemma strftime_valid:
  "valid_datetime t1 \<Longrightarrow> valid_datetime t2 \<Longrightarrow>
   (strftime t1 = strftime t2) = same_second t1 t2"
  by (simp add: strftime_eq_iff valid_datetime_def same_second_def)

text \<open>
  Claim C9, as the code has it. Two loggers constructed with the same model name and log
  directory get the same log path, and the same JSON path, exactly when the two
  construction times agree down to the second. Constructions in different seconds get
  distinct paths; constructions within one second share both paths.
\<close>

theorem C9_log_paths:
  "valid_datetime t1 \<and> valid_datetime t2 \<longrightarrow>
     (log_path (BenchmarkLogger_init t1 name dir) = log_path (BenchmarkLogger_init t2 name dir))
       = same_second t1 t2 \<and>
     (json_path (BenchmarkLogger_init t1 name dir) = json_path (BenchmarkLogger_init t2 name dir))
       = same_second t1 t2"
  by (simp add: BenchmarkLogger_init_def Let_def strftime_valid)

text \<open>Two constructions one second apart get distinct paths.\<close>

theorem C9_log_paths_witness:
  "log_path (BenchmarkLogger_init
      \<lparr>year = 2024, month = 3, day = 9, hour = 7, minute = 5, second = 58,
       microsecond = 17\<rparr> ''yolov8'' ''logs'') \<noteq>
   log_path (BenchmarkLogger_init
      \<lparr>year = 2024, month = 3, day = 9, hour = 7, minute = 5, second = 59,
       microsecond = 17\<rparr> ''yolov8'' ''logs'') \<and>
   json_path (BenchmarkLogger_init
      \<lparr>year = 2024, month = 3, day = 9, hour = 7, minute = 5, second = 58,
       microsecond = 17\<rparr> ''yolov8'' ''logs'') \<noteq>
   json_path (BenchmarkLogger_init
      \<lparr>year = 2024, month = 3, day = 9, hour = 7, minute = 5, second = 59,
       microsecond = 17\<rparr> ''yolov8'' ''logs'')"
  using C9_log_paths [of
      "\<lparr>year = 2024, month = 3, day = 9, hour = 7, minute = 5, second = 58,
        microsecond = 17\<rparr>"
      "\<lparr>year = 2024, month = 3, day = 9, hour = 7, minute = 5, second = 59,
        microsecond = 17\<rparr>" "''yolov8''" "''logs''"]
  by (simp add: valid_datetime_def same_second_def)

text \<open>
  Two constructions for the same model within one second, 17 and 900000 microseconds into
  it: the log paths are the same and the JSON paths are the same.
\<close>

theorem C9_counterexample:
  "log_path (BenchmarkLogger_init
      \<lparr>year = 2024, month = 3, day = 9, hour = 7, minute = 5, second = 59,
       microsecond = 17\<rparr> ''yolov8'' ''logs'') =
   log_path (BenchmarkLogger_init
      \<lparr>year = 2024, month = 3, day = 9, hour = 7, minute = 5, second = 59,
       microsecond = 900000\<rparr> ''yolov8'' ''logs'') \<and>
   json_path (BenchmarkLogger_init
      \<lparr>year = 2024, month = 3, day = 9, hour = 7, minute = 5, second = 59,
       microsecond = 17\<rparr> ''yolov8'' ''logs'') =
   json_path (BenchmarkLogger_init
      \<lparr>year = 2024, month = 3, day = 9, hour = 7, minute = 5, second = 59,
       microsecond = 900000\<rparr> ''yolov8'' ''logs'') \<and>
   log_path (BenchmarkLogger_init
      \<lparr>year = 2024, month = 3, day = 9, hour = 7, minute = 5, second = 59,
       microsecond = 900000\<rparr> ''yolov8'' ''logs'') =
     [''logs'', ''yolov8'', ''yolov8_2024-03-09_07-05-59.log'']"
  by (simp add: BenchmarkLogger_init_def Let_def strftime_def pad4_def pad2_def digit_char_def)

section \<open>Properties of the summary computation\<close>

lemma bind_err_Inr: "bind_err (Inr x) f = f x"
  by (simp add: bind_err_def)

lemma py_min_Min: "xs \<noteq> [] \<Longrightarrow> py_min xs = Inr (Min (set xs))"
proof (cases xs)
  case Nil
  assume "xs \<noteq> []"
  with Nil show ?thesis by simp
next
  case (Cons y ys)
  then show ?thesis using Min.set_eq_fold [of y ys] by (simp add: py_min_def)
qed

lemma py_max_Max: "xs \<noteq> [] \<Longrightarrow> py_max xs = Inr (Max (set xs))"
proof (cases xs)
  case Nil
  assume "xs \<noteq> []"
  with Nil show ?thesis by simp
next
  case (Cons y ys)
  then show ?thesis using Max.set_eq_fold [of y ys] by (simp add: py_max_def)
qed

lemma guarded_min:
  "(if xs \<noteq> [] then py_min xs else Inr 0) = Inr (if xs = [] then 0 else Min (set xs))"
  by (simp add: py_min_Min)

lemma guarded_max:
  "(if xs \<noteq> [] then py_max xs else Inr 0) = Inr (if xs = [] then 0 else Max (set xs))"
  by (simp add: py_max_Max)

lemma guarded_avg:
  "(if xs \<noteq> [] then py_div (sum_list xs) (of_nat (length xs)) else Inr 0) =
   Inr (if xs = [] then 0 else sum_list xs / of_nat (length xs))"
  by (simp add: py_div_def)

lemma guarded_avg_ms:
  "(if xs \<noteq> [] then bind_err (py_div (sum_list xs) (of_nat (length xs))) (\<lambda>q. Inr (q * 1000))
    else Inr 0) =
   Inr (if xs = [] then 0 else sum_list xs / of_nat (length xs) * 1000)"
  by (simp add: py_div_def bind_err_def)

lemma guarded_min_ms:
  "(if xs \<noteq> [] then bind_err (py_min xs) (\<lambda>v. Inr (v * 1000)) else Inr 0) =
   Inr (if xs = [] then 0 else Min (set xs) * 1000)"
  by (simp add: py_min_Min bind_err_def)

lemma guarded_max_ms:
  "(if xs \<noteq> [] then bind_err (py_max xs) (\<lambda>v. Inr (v * 1000)) else Inr 0) =
   Inr (if xs = [] then 0 else Max (set xs) * 1000)"
  by (simp add: py_max_Max bind_err_def)

lemmas guarded = guarded_min guarded_max guarded_avg guarded_avg_ms guarded_min_ms guarded_max_ms

text \<open>
  Claim C4, as the code has it. For every metrics buffer, the empty one included, the
  summary computation raises nothing and returns a summary. \<^verbatim>\<open>total_frames\<close> and \<^verbatim>\<open>avg_fps\<close>
  are read from the FPS calculator, not from the records. The minimum and maximum FPS, the
  average, minimum and maximum inference time (in milliseconds) and the average and maximum
  CPU and memory percentages are taken over exactly the records in which the field is
  present, and are 0 when it is present in none. \<^verbatim>\<open>throttle_events\<close> counts the records
  whose \<^verbatim>\<open>throttled\<close> flag is true. The three temperature entries are computed over the
  records with a temperature reading, the rise being the maximum minus the first reading,
  and are left out of the summary, not set to 0, when no record has one.
\<close>

theorem C4_summary:
  "\<exists>s. write_summary now fps_calc ms = Inr s \<and>
     s ''total_frames'' = Some (of_nat (frame_count fps_calc)) \<and>
     s ''avg_fps'' = Some (get_average_fps now fps_calc) \<and>
     s ''min_fps'' = Some (if fps_values ms = [] then 0 else Min (set (fps_values ms))) \<and>
     s ''max_fps'' = Some (if fps_values ms = [] then 0 else Max (set (fps_values ms))) \<and>
     s ''avg_inference_ms'' =
       Some (if inference_times ms = [] then 0
             else sum_list (inference_times ms) / of_nat (length (inference_times ms)) * 1000) \<and>
     s ''min_inference_ms'' =
       Some (if inference_times ms = [] then 0 else Min (set (inference_times ms)) * 1000) \<and>
     s ''max_inference_ms'' =
       Some (if inference_times ms = [] then 0 else Max (set (inference_times ms)) * 1000) \<and>
     s ''avg_cpu'' =
       Some (if cpu_values ms = [] then 0
             else sum_list (cpu_values ms) / of_nat (length (cpu_values ms))) \<and>
     s ''max_cpu'' = Some (if cpu_values ms = [] then 0 else Max (set (cpu_values ms))) \<and>
     s ''avg_memory'' =
       Some (if memory_values ms = [] then 0
             else sum_list (memory_values ms) / of_nat (length (memory_values ms))) \<and>
     s ''max_memory'' =
       Some (if memory_values ms = [] then 0 else Max (set (memory_values ms))) \<and>
     s ''throttle_events'' = Some (of_nat (throttle_count ms)) \<and>
     s ''avg_temperature'' =
       (if temp_values ms = [] then None
        else Some (sum_list (temp_values ms) / of_nat (length (temp_values ms)))) \<and>
     s ''max_temperature'' =
       (if temp_values ms = [] then None else Some (Max (set (temp_values ms)))) \<and>
     s ''temp_rise'' =
       (if temp_values ms = [] then None
        else Some (Max (set (temp_values ms)) - hd (temp_values ms)))"
proof (cases "temp_values ms = []")
  case True
  then show ?thesis
    by (simp add: write_summary_def Let_def guarded bind_err_Inr get_frame_count_def)
next
  case False
  then have i: "py_index (temp_values ms) 0 = Inr (hd (temp_values ms))"
    by (cases "temp_values ms") (simp_all add: py_index_def)
  from False have d: "py_div (sum_list (temp_values ms)) (of_nat (length (temp_values ms))) =
      Inr (sum_list (temp_values ms) / of_nat (length (temp_values ms)))"
    by (simp add: py_div_def)
  from False show ?thesis
    by (simp add: write_summary_def Let_def guarded bind_err_Inr get_frame_count_def i d py_max_Max)
qed

text \<open>
  Three frames in four seconds, one logged record with a rolling FPS of 1 and no
  temperature in any record: \<^verbatim>\<open>avg_fps\<close> is 3/4, the calculator's cumulative rate, where the
  records' FPS values average to 1; and \<^verbatim>\<open>avg_temperature\<close> is absent from the summary, not
  0.
\<close>

theorem C4_counterexample:
  "fps_values
     (metrics_buffer
       (log_inference 3 3 (1 / 2) 1
         (BenchmarkLogger_init
           \<lparr>year = 2024, month = 3, day = 9, hour = 7, minute = 5, second = 59,
            microsecond = 17\<rparr> ''yolov8'' ''logs''))) = [1] \<and>
   map_sum id (\<lambda>s. (s ''avg_fps'', s ''avg_temperature''))
     (write_summary 4 (updates [1, 2, 3] (start 0 (FPSCalculator_init 30)))
       (metrics_buffer
         (log_inference 3 3 (1 / 2) 1
           (BenchmarkLogger_init
             \<lparr>year = 2024, month = 3, day = 9, hour = 7, minute = 5, second = 59,
              microsecond = 17\<rparr> ''yolov8'' ''logs'')))) =
   Inr (Some (3 / 4), None)"
  by (simp add: write_summary_def Let_def guarded bind_err_Inr get_frame_count_def
      fps_values_def inference_times_def cpu_values_def memory_values_def temp_values_def
      throttle_count_def log_inference_def log_metric_def BenchmarkLogger_init_def
      empty_record_def get_average_fps_def update_def start_def FPSCalculator_init_def
      deque_append_def)

end
